theory Spec2Isabelle
  imports Main
begin

section \<open>JavaScript values, strings and errors\<close>

text \<open>
  Strings are lists of 8-bit characters, read as the code points U+0000 to U+00FF (each
  one UTF-16 code unit of a JavaScript string). The values that cross the boundary to
  the database layer are loosely typed in the source (\<open>any\<close>), so they are modelled by
  one datatype of JavaScript values; \<open>JNum n\<close> stands for the integral Number \<open>n\<close>
  (a safe integer). An object is the list of its own properties in insertion order.
\<close>

datatype js_value =
    JUndefined
  | JNull
  | JBool bool
  | JNum int
  | JStr string
  | JArr "js_value list"
  | JObj "(string \<times> js_value) list"

type_synonym row = "(string \<times> js_value) list"

text \<open>Property access \<open>r.k\<close>: a missing property reads as \<open>undefined\<close>.\<close>

definition js_get :: "row \<Rightarrow> string \<Rightarrow> js_value" where
  "js_get r k = (case map_of r k of None \<Rightarrow> JUndefined | Some v \<Rightarrow> v)"

text \<open>The coercion \<open>!!v\<close> (ToBoolean).\<close>

fun truthy :: "js_value \<Rightarrow> bool" where
  "truthy JUndefined = False"
| "truthy JNull = False"
| "truthy (JBool b) = b"
| "truthy (JNum n) = (n \<noteq> 0)"
| "truthy (JStr s) = (s \<noteq> [])"
| "truthy (JArr xs) = True"
| "truthy (JObj ps) = True"





text \<open>
  \<open>String.prototype.trim\<close> removes white space and line terminators from both ends;
  below U+0100 these are TAB, LF, VT, FF, CR, SPACE and NO-BREAK SPACE.
\<close>

definition isWhiteSpace :: "char \<Rightarrow> bool" where
  "isWhiteSpace c = (of_char c \<in> {9, 10, 11, 12, 13, 32, 160 :: nat})"

definition trim :: "string \<Rightarrow> string" where
  "trim s = rev (dropWhile isWhiteSpace (rev (dropWhile isWhiteSpace s)))"

text \<open>
  \<open>String.prototype.toLowerCase\<close>: below U+0100 the upper-case letters are A to Z and
  U+00C0 to U+00DE without the multiplication sign U+00D7; each maps to the code point
  32 above it.
\<close>

definition isUpperCase :: "char \<Rightarrow> bool" where
  "isUpperCase c = (let n = (of_char c :: nat) in
     (65 \<le> n \<and> n \<le> 90) \<or> (192 \<le> n \<and> n \<le> 222 \<and> n \<noteq> 215))"

definition toLowerCase_char :: "char \<Rightarrow> char" where
  "toLowerCase_char c = (if isUpperCase c then char_of (of_char c + (32 :: nat)) else c)"

definition toLowerCase :: "string \<Rightarrow> string" where
  "toLowerCase s = map toLowerCase_char s"

definition startsWith :: "string \<Rightarrow> string \<Rightarrow> bool" where
  "startsWith s p = (take (length p) s = p)"

text \<open>A thrown \<open>Error\<close> object; the catch blocks read only its \<open>message\<close>.\<close>

datatype js_error = Error (message: string)

abbreviation sq :: string where "sq \<equiv> [CHR 0x27]"
abbreviation dq :: string where "dq \<equiv> [CHR 0x22]"

section \<open>The external database layer\<close>

text \<open>
  The functions imported from \<open>../db/index.js\<close> and \<open>../utils/formatUtils.js\<close> are
  parameters. Each of them either returns or throws; every call to the database layer
  is recorded, in order, in the log an operation returns beside its result.
\<close>

record db_metadata =
  db_type :: js_value
  db_path :: js_value
  db_server :: js_value
  db_database :: js_value

record 'r db_layer =
  getDatabaseMetadata :: "string \<Rightarrow> js_error + db_metadata"
  getListTablesQuery :: "string \<Rightarrow> js_error + string"
  getDescribeTableQuery :: "string \<Rightarrow> string option \<Rightarrow> js_error + string"
  dbAll :: "string \<Rightarrow> string \<Rightarrow> js_error + row list"
  dbExec :: "string \<Rightarrow> string \<Rightarrow> js_error + unit"
  formatSuccessResponse :: "js_value \<Rightarrow> 'r"

datatype call =
    CallGetDatabaseMetadata string
  | CallGetListTablesQuery string
  | CallGetDescribeTableQuery string "string option"
  | CallDbAll string string
  | CallDbExec string string

type_synonym 'a outcome = "(js_error + 'a) \<times> call list"

definition ok :: "'a \<Rightarrow> 'a outcome" where
  "ok v = (Inr v, [])"

definition throw :: "js_error \<Rightarrow> 'a outcome" where
  "throw e = (Inl e, [])"

text \<open>Sequencing: a throw skips the rest of the \<open>try\<close> block.\<close>

definition andThen :: "'a outcome \<Rightarrow> ('a \<Rightarrow> 'b outcome) \<Rightarrow> 'b outcome" where
  "andThen m f =
     (case m of
        (Inl e, l) \<Rightarrow> (Inl e, l)
      | (Inr v, l) \<Rightarrow> (case f v of (r, l') \<Rightarrow> (r, l @ l')))"

text \<open>\<open>catch (error) { throw new Error(`<prefix>${error.message}`) }\<close>\<close>

definition catchRethrow :: "string \<Rightarrow> 'a outcome \<Rightarrow> 'a outcome" where
  "catchRethrow prefix m =
     (case m of
        (Inl e, l) \<Rightarrow> (Inl (Error (prefix @ message e)), l)
      | (Inr v, l) \<Rightarrow> (Inr v, l))"

definition call_getDatabaseMetadata :: "'r db_layer \<Rightarrow> string \<Rightarrow> db_metadata outcome" where
  "call_getDatabaseMetadata E dbId = (getDatabaseMetadata E dbId, [CallGetDatabaseMetadata dbId])"

definition call_getListTablesQuery :: "'r db_layer \<Rightarrow> string \<Rightarrow> string outcome" where
  "call_getListTablesQuery E dbId = (getListTablesQuery E dbId, [CallGetListTablesQuery dbId])"

definition call_getDescribeTableQuery ::
  "'r db_layer \<Rightarrow> string \<Rightarrow> string option \<Rightarrow> string outcome" where
  "call_getDescribeTableQuery E dbId t =
     (getDescribeTableQuery E dbId t, [CallGetDescribeTableQuery dbId t])"

definition call_dbAll :: "'r db_layer \<Rightarrow> string \<Rightarrow> string \<Rightarrow> row list outcome" where
  "call_dbAll E dbId q = (dbAll E dbId q, [CallDbAll dbId q])"

definition call_dbExec :: "'r db_layer \<Rightarrow> string \<Rightarrow> string \<Rightarrow> unit outcome" where
  "call_dbExec E dbId q = (dbExec E dbId q, [CallDbExec dbId q])"

section \<open>The schema tools (src/tools/schemaTools.ts)\<close>

definition createTable :: "'r db_layer \<Rightarrow> string \<Rightarrow> string \<Rightarrow> 'r outcome" where
  "createTable E dbId query = catchRethrow ''SQL Error: ''
     (if \<not> startsWith (toLowerCase (trim query)) ''create table''
      then throw (Error ''Only CREATE TABLE statements are allowed'')
      else andThen (call_dbExec E dbId query) (\<lambda>_.
        ok (formatSuccessResponse E
          (JObj [(''success'', JBool True), (''message'', JStr ''Table created successfully'')]))))"

definition alterTable :: "'r db_layer \<Rightarrow> string \<Rightarrow> string \<Rightarrow> 'r outcome" where
  "alterTable E dbId query = catchRethrow ''SQL Error: ''
     (if \<not> startsWith (toLowerCase (trim query)) ''alter table''
      then throw (Error ''Only ALTER TABLE statements are allowed'')
      else andThen (call_dbExec E dbId query) (\<lambda>_.
        ok (formatSuccessResponse E
          (JObj [(''success'', JBool True), (''message'', JStr ''Table altered successfully'')]))))"

definition dropTable :: "'r db_layer \<Rightarrow> string \<Rightarrow> string \<Rightarrow> bool \<Rightarrow> 'r outcome" where
  "dropTable E dbId tableName confirm = catchRethrow ''Error dropping table: ''
     (if tableName = [] then throw (Error ''Table name is required'')
      else if \<not> confirm then
        ok (formatSuccessResponse E
          (JObj [(''success'', JBool False),
                 (''message'', JStr ''Safety confirmation required. Set confirm=true to proceed with dropping the table.'')]))
      else andThen (call_getListTablesQuery E dbId) (\<lambda>query.
        andThen (call_dbAll E dbId query) (\<lambda>tables.
          let tableNames = map (\<lambda>t. js_get t ''name'') tables in
          if JStr tableName \<notin> set tableNames
          then throw (Error (''Table '' @ sq @ tableName @ sq @ '' does not exist''))
          else andThen (call_dbExec E dbId (''DROP TABLE '' @ dq @ tableName @ dq)) (\<lambda>_.
            ok (formatSuccessResponse E
              (JObj [(''success'', JBool True),
                     (''message'', JStr (''Table '' @ sq @ tableName @ sq @ '' dropped successfully''))]))))))"


definition describeColumn :: "row \<Rightarrow> js_value" where
  "describeColumn col = JObj
     [(''name'', js_get col ''name''),
      (''type'', js_get col ''type''),
      (''notnull'', JBool (truthy (js_get col ''notnull''))),
      (''default_value'', js_get col ''dflt_value''),
      (''primary_key'', JBool (truthy (js_get col ''pk'')))]"

definition describeTable :: "'r db_layer \<Rightarrow> string \<Rightarrow> string \<Rightarrow> 'r outcome" where
  "describeTable E dbId tableName = catchRethrow ''Error describing table: ''
     (if tableName = [] then throw (Error ''Table name is required'')
      else andThen (call_getListTablesQuery E dbId) (\<lambda>query.
        andThen (call_dbAll E dbId query) (\<lambda>tables.
          let tableNames = map (\<lambda>t. js_get t ''name'') tables in
          if JStr tableName \<notin> set tableNames
          then throw (Error (''Table '' @ sq @ tableName @ sq @ '' does not exist''))
          else andThen (call_getDescribeTableQuery E dbId (Some tableName)) (\<lambda>descQuery.
            andThen (call_dbAll E dbId descQuery) (\<lambda>columns.
              ok (formatSuccessResponse E (JArr (map describeColumn columns))))))))"

section \<open>The platform's URL class\<close>

text \<open>
  \<open>new URL(input, base)\<close>, \<open>href\<close> and \<open>pathname\<close> belong to the platform, not to the
  repository. The handlers below take the constructor as a parameter; this section
  models it after the basic URL parser of the WHATWG URL Standard, state by state, for
  URLs whose scheme is not special. Where the Standard takes a branch that is not
  modelled (a special scheme: ftp, file, http, https, ws, wss; credentials before the
  host; an IPv6 host in brackets) or has changed between its revisions (a space in an
  opaque path, \<open>^\<close> in a path, \<open>|\<close> in a host) the model answers \<open>Unmodelled\<close> and claims
  nothing.
\<close>

datatype url_path = Opaque string | Segments "string list"

record url =
  url_scheme :: string
  url_username :: string
  url_password :: string
  url_host :: "string option"
  url_port :: "nat option"
  url_path :: url_path
  url_query :: "string option"
  url_fragment :: "string option"

datatype 'a parsed = Parsed 'a | Failure | Unmodelled

definition isAsciiAlpha :: "char \<Rightarrow> bool" where
  "isAsciiAlpha c = (let n = (of_char c :: nat) in (65 \<le> n \<and> n \<le> 90) \<or> (97 \<le> n \<and> n \<le> 122))"

definition isAsciiDigit :: "char \<Rightarrow> bool" where
  "isAsciiDigit c = (let n = (of_char c :: nat) in 48 \<le> n \<and> n \<le> 57)"

definition isAsciiAlphanumeric :: "char \<Rightarrow> bool" where
  "isAsciiAlphanumeric c = (isAsciiAlpha c \<or> isAsciiDigit c)"

definition asciiLower :: "char \<Rightarrow> char" where
  "asciiLower c = (let n = (of_char c :: nat) in if 65 \<le> n \<and> n \<le> 90 then char_of (n + 32) else c)"

text \<open>Percent-encode sets, and UTF-8 percent-encoding of one code point below U+0100.\<close>

definition c0ControlSet :: "char \<Rightarrow> bool" where
  "c0ControlSet c = (let n = (of_char c :: nat) in n < 32 \<or> 126 < n)"

definition fragmentSet :: "char \<Rightarrow> bool" where
  "fragmentSet c = (c0ControlSet c \<or> c \<in> set [CHR '' '', CHR 0x22, CHR ''<'', CHR ''>'', CHR ''`''])"

definition querySet :: "char \<Rightarrow> bool" where
  "querySet c = (c0ControlSet c \<or> c \<in> set [CHR '' '', CHR 0x22, CHR ''#'', CHR ''<'', CHR ''>''])"

definition pathSet :: "char \<Rightarrow> bool" where
  "pathSet c = (querySet c \<or> c \<in> set [CHR ''?'', CHR ''^'', CHR ''`'', CHR ''{'', CHR ''}''])"

definition hexDigit :: "nat \<Rightarrow> char" where
  "hexDigit n = (if n < 10 then char_of (48 + n) else char_of (55 + n))"

definition percentByte :: "nat \<Rightarrow> string" where
  "percentByte b = [CHR ''%'', hexDigit (b div 16), hexDigit (b mod 16)]"

definition utf8PercentEncode :: "(char \<Rightarrow> bool) \<Rightarrow> char \<Rightarrow> string" where
  "utf8PercentEncode inSet c =
     (if \<not> inSet c then [c]
      else let n = (of_char c :: nat) in
        if n < 128 then percentByte n
        else percentByte (192 + n div 64) @ percentByte (128 + n mod 64))"

definition percentEncode :: "(char \<Rightarrow> bool) \<Rightarrow> string \<Rightarrow> string" where
  "percentEncode inSet s = concat (map (utf8PercentEncode inSet) s)"

definition specialSchemes :: "string list" where
  "specialSchemes = [''ftp'', ''file'', ''http'', ''https'', ''ws'', ''wss'']"

definition newUrl :: "string \<Rightarrow> url" where
  "newUrl sch = \<lparr>url_scheme = sch, url_username = [], url_password = [], url_host = None,
     url_port = None, url_path = Segments [], url_query = None, url_fragment = None\<rparr>"

definition segments :: "url \<Rightarrow> string list" where
  "segments u = (case url_path u of Segments ss \<Rightarrow> ss | Opaque p \<Rightarrow> [])"

text \<open>Shorten a path: for a scheme other than file, remove the last segment, if any.\<close>

definition shorten :: "url \<Rightarrow> url" where
  "shorten u = u\<lparr>url_path := Segments (butlast (segments u))\<rparr>"

definition appendSegment :: "string \<Rightarrow> url \<Rightarrow> url" where
  "appendSegment seg u = u\<lparr>url_path := Segments (segments u @ [seg])\<rparr>"

definition isSingleDot :: "string \<Rightarrow> bool" where
  "isSingleDot b = (b \<in> set [''.'', ''%2e'', ''%2E''])"

definition isDoubleDot :: "string \<Rightarrow> bool" where
  "isDoubleDot b = (b \<in> set [''..'', ''.%2e'', ''.%2E'', ''%2e.'', ''%2E.'',
     ''%2e%2e'', ''%2e%2E'', ''%2E%2e'', ''%2E%2E''])"

text \<open>Fragment state: every remaining code point is encoded and appended.\<close>

definition fragment_state :: "url \<Rightarrow> string \<Rightarrow> url parsed" where
  "fragment_state u s = Parsed (u\<lparr>url_fragment := Some (percentEncode fragmentSet s)\<rparr>)"

text \<open>Query state: the buffer runs to \<open>#\<close> or the end of the input.\<close>

fun query_state :: "url \<Rightarrow> string \<Rightarrow> string \<Rightarrow> url parsed" where
  "query_state u buf [] = Parsed (u\<lparr>url_query := Some (percentEncode querySet buf)\<rparr>)"
| "query_state u buf (c # cs) =
     (if c = CHR ''#'' then fragment_state (u\<lparr>url_query := Some (percentEncode querySet buf)\<rparr>) cs
      else query_state u (buf @ [c]) cs)"

text \<open>
  Path state, at the end of a segment (\<open>slash\<close>: the segment ended at \<open>/\<close>): a double-dot
  segment shortens the path, a single-dot segment is dropped, any other is appended.
\<close>

definition path_segment_end :: "url \<Rightarrow> string \<Rightarrow> bool \<Rightarrow> url" where
  "path_segment_end u buf slash =
     (if isDoubleDot buf then (if slash then shorten u else appendSegment [] (shorten u))
      else if isSingleDot buf then (if slash then u else appendSegment [] u)
      else appendSegment buf u)"

fun path_state :: "url \<Rightarrow> string \<Rightarrow> string \<Rightarrow> url parsed" where
  "path_state u buf [] = Parsed (path_segment_end u buf False)"
| "path_state u buf (c # cs) =
     (if c = CHR ''/'' then path_state (path_segment_end u buf True) [] cs
      else if c = CHR ''?'' then query_state (path_segment_end u buf False) [] cs
      else if c = CHR ''#'' then fragment_state (path_segment_end u buf False) cs
      else if c = CHR ''^'' then Unmodelled
      else path_state u (buf @ utf8PercentEncode pathSet c) cs)"

definition path_start_state :: "url \<Rightarrow> string \<Rightarrow> url parsed" where
  "path_start_state u s =
     (case s of
        [] \<Rightarrow> Parsed u
      | c # cs \<Rightarrow>
          if c = CHR ''?'' then query_state u [] cs
          else if c = CHR ''#'' then fragment_state u cs
          else if c = CHR ''/'' then path_state u [] cs
          else path_state u [] (c # cs))"

text \<open>Opaque path state (a scheme followed by anything but a slash).\<close>

fun opaque_path_state :: "url \<Rightarrow> string \<Rightarrow> string \<Rightarrow> url parsed" where
  "opaque_path_state u p [] = Parsed (u\<lparr>url_path := Opaque p\<rparr>)"
| "opaque_path_state u p (c # cs) =
     (if c = CHR ''?'' then query_state (u\<lparr>url_path := Opaque p\<rparr>) [] cs
      else if c = CHR ''#'' then fragment_state (u\<lparr>url_path := Opaque p\<rparr>) cs
      else if c = CHR '' '' then Unmodelled
      else opaque_path_state u (p @ utf8PercentEncode c0ControlSet c) cs)"

text \<open>Port state: decimal digits up to the path, at most 65535.\<close>

definition decimal :: "string \<Rightarrow> nat" where
  "decimal s = fold (\<lambda>c n. 10 * n + (of_char c - 48)) s 0"

definition port_end :: "url \<Rightarrow> string \<Rightarrow> string \<Rightarrow> url parsed" where
  "port_end u buf rest =
     (if buf = [] then path_start_state u rest
      else if 65535 < decimal buf then Failure
      else path_start_state (u\<lparr>url_port := Some (decimal buf)\<rparr>) rest)"

fun port_state :: "url \<Rightarrow> string \<Rightarrow> string \<Rightarrow> url parsed" where
  "port_state u buf [] = port_end u buf []"
| "port_state u buf (c # cs) =
     (if isAsciiDigit c then port_state u (buf @ [c]) cs
      else if c \<in> set [CHR ''/'', CHR ''?'', CHR ''#''] then port_end u buf (c # cs)
      else Failure)"

text \<open>Host parsing of a URL that is not special: an opaque host.\<close>

definition forbiddenHostCodePoint :: "char \<Rightarrow> bool" where
  "forbiddenHostCodePoint c = (c \<in> set [CHR 0x00, CHR 0x09, CHR 0x0A, CHR 0x0D, CHR '' '',
     CHR ''#'', CHR ''/'', CHR '':'', CHR ''<'', CHR ''>'', CHR ''?'', CHR ''@'', CHR ''['',
     CHR 0x5C, CHR '']'', CHR ''^'', CHR ''|''])"

definition host_parse :: "string \<Rightarrow> string parsed" where
  "host_parse input =
     (case input of
        c # cs \<Rightarrow>
          if c = CHR ''['' then (if last input \<noteq> CHR '']'' then Failure else Unmodelled)
          else if list_ex (\<lambda>c. forbiddenHostCodePoint c \<and> c \<noteq> CHR ''|'') input then Failure
          else if list_ex (\<lambda>c. c = CHR ''|'') input then Unmodelled
          else Parsed (percentEncode c0ControlSet input)
      | [] \<Rightarrow> Parsed [])"

definition host_end :: "url \<Rightarrow> string \<Rightarrow> string \<Rightarrow> url parsed" where
  "host_end u buf rest =
     (case host_parse buf of
        Parsed h \<Rightarrow> path_start_state (u\<lparr>url_host := Some h\<rparr>) rest
      | Failure \<Rightarrow> Failure
      | Unmodelled \<Rightarrow> Unmodelled)"

fun host_state :: "url \<Rightarrow> string \<Rightarrow> bool \<Rightarrow> string \<Rightarrow> url parsed" where
  "host_state u buf insideBrackets [] = host_end u buf []"
| "host_state u buf insideBrackets (c # cs) =
     (if c = CHR '':'' \<and> \<not> insideBrackets then
        (if buf = [] then Failure
         else case host_parse buf of
           Parsed h \<Rightarrow> port_state (u\<lparr>url_host := Some h\<rparr>) [] cs
         | Failure \<Rightarrow> Failure
         | Unmodelled \<Rightarrow> Unmodelled)
      else if c \<in> set [CHR ''/'', CHR ''?'', CHR ''#''] then host_end u buf (c # cs)
      else host_state u (buf @ [c])
             (if c = CHR ''['' then True else if c = CHR '']'' then False else insideBrackets) cs)"

text \<open>
  Authority state: the buffer runs to the path, query or fragment and is then read again
  as the host; an \<open>@\<close> would end the credentials.
\<close>

fun authority_state :: "url \<Rightarrow> string \<Rightarrow> string \<Rightarrow> url parsed" where
  "authority_state u buf [] = host_state u [] False buf"
| "authority_state u buf (c # cs) =
     (if c = CHR ''@'' then Unmodelled
      else if c \<in> set [CHR ''/'', CHR ''?'', CHR ''#''] then host_state u [] False (buf @ c # cs)
      else authority_state u (buf @ [c]) cs)"

definition path_or_authority_state :: "url \<Rightarrow> string \<Rightarrow> url parsed" where
  "path_or_authority_state u s =
     (case s of
        c # cs \<Rightarrow> if c = CHR ''/'' then authority_state u [] cs else path_state u [] s
      | [] \<Rightarrow> path_state u [] s)"

text \<open>Relative states: the input has no scheme and is resolved against the base.\<close>

definition relative_slash_state :: "url \<Rightarrow> string \<Rightarrow> url parsed" where
  "relative_slash_state b s =
     (case s of
        c # cs \<Rightarrow>
          if c = CHR ''/'' then authority_state (newUrl (url_scheme b)) [] cs
          else path_state ((newUrl (url_scheme b))\<lparr>url_username := url_username b,
                 url_password := url_password b, url_host := url_host b, url_port := url_port b\<rparr>) [] s
      | [] \<Rightarrow>
          path_state ((newUrl (url_scheme b))\<lparr>url_username := url_username b,
            url_password := url_password b, url_host := url_host b, url_port := url_port b\<rparr>) [] s)"

definition relative_state :: "url \<Rightarrow> string \<Rightarrow> url parsed" where
  "relative_state b s =
     (let u = b\<lparr>url_fragment := None\<rparr> in
      case s of
        [] \<Rightarrow> Parsed u
      | c # cs \<Rightarrow>
          if c = CHR ''/'' then relative_slash_state b cs
          else if c = CHR ''?'' then query_state u [] cs
          else if c = CHR ''#'' then fragment_state u cs
          else path_state (shorten (u\<lparr>url_query := None\<rparr>)) [] s)"

definition no_scheme_state :: "string \<Rightarrow> url option \<Rightarrow> url parsed" where
  "no_scheme_state s base =
     (case base of
        None \<Rightarrow> Failure
      | Some b \<Rightarrow>
          if url_scheme b \<in> set specialSchemes then Unmodelled
          else (case url_path b of
            Opaque p \<Rightarrow>
              (case s of
                 c # cs \<Rightarrow>
                   if c = CHR ''#''
                   then fragment_state ((newUrl (url_scheme b))\<lparr>url_path := url_path b,
                          url_query := url_query b\<rparr>) cs
                   else Failure
               | [] \<Rightarrow> Failure)
          | Segments ss \<Rightarrow> relative_state b s))"

text \<open>
  Scheme state: \<open>buf\<close> is the lower-cased scheme read so far, \<open>s\<close> the whole input, to
  which the parser goes back when no scheme is found.
\<close>

fun scheme_state :: "string \<Rightarrow> string \<Rightarrow> string \<Rightarrow> url option \<Rightarrow> url parsed" where
  "scheme_state buf [] s base = no_scheme_state s base"
| "scheme_state buf (c # cs) s base =
     (if isAsciiAlphanumeric c \<or> c \<in> set [CHR ''+'', CHR ''-'', CHR ''.'']
      then scheme_state (buf @ [asciiLower c]) cs s base
      else if c = CHR '':'' then
        (if buf \<in> set specialSchemes then Unmodelled
         else case cs of
           c' # cs' \<Rightarrow>
             if c' = CHR ''/'' then path_or_authority_state (newUrl buf) cs'
             else opaque_path_state (newUrl buf) [] cs
         | [] \<Rightarrow> opaque_path_state (newUrl buf) [] cs)
      else no_scheme_state s base)"

definition scheme_start_state :: "string \<Rightarrow> url option \<Rightarrow> url parsed" where
  "scheme_start_state s base =
     (case s of
        c # cs \<Rightarrow> if isAsciiAlpha c then scheme_state [asciiLower c] cs s base
                  else no_scheme_state s base
      | [] \<Rightarrow> no_scheme_state s base)"

text \<open>
  Before the state machine runs, leading and trailing C0 controls and spaces are
  removed, then every tab and newline.
\<close>

definition isC0ControlOrSpace :: "char \<Rightarrow> bool" where
  "isC0ControlOrSpace c = ((of_char c :: nat) \<le> 32)"

definition isTabOrNewline :: "char \<Rightarrow> bool" where
  "isTabOrNewline c = (c \<in> set [CHR 0x09, CHR 0x0A, CHR 0x0D])"

definition preprocess :: "string \<Rightarrow> string" where
  "preprocess input =
     filter (\<lambda>c. \<not> isTabOrNewline c)
       (rev (dropWhile isC0ControlOrSpace (rev (dropWhile isC0ControlOrSpace input))))"

definition basic_URL_parser :: "string \<Rightarrow> url option \<Rightarrow> url parsed" where
  "basic_URL_parser input base = scheme_start_state (preprocess input) base"

text \<open>The URL serializer: \<open>pathname\<close> and \<open>href\<close>.\<close>

definition pathname :: "url \<Rightarrow> string" where
  "pathname u =
     (case url_path u of
        Opaque p \<Rightarrow> p
      | Segments ss \<Rightarrow> concat (map (\<lambda>seg. CHR ''/'' # seg) ss))"


text \<open>
  The platform as the handlers see it. A platform conforms to the model when its
  constructor agrees with the parser above wherever that is modelled; the message of the
  \<open>TypeError\<close> it throws on a failure is its own.
\<close>

record platform =
  URL_new :: "string \<Rightarrow> url option \<Rightarrow> js_error + url"
  JSON_stringify :: "js_value \<Rightarrow> string"


section \<open>The resource handlers (unnamed/part_000)\<close>

text \<open>A computation of the handler itself that may throw but calls nothing external.\<close>

definition lift :: "js_error + 'a \<Rightarrow> 'a outcome" where
  "lift r = (r, [])"







text \<open>\<open>String.prototype.split\<close> at one character, and \<open>Array.prototype.pop\<close>.\<close>

fun splitFrom :: "char \<Rightarrow> string \<Rightarrow> string \<Rightarrow> string list" where
  "splitFrom sep piece [] = [piece]"
| "splitFrom sep piece (c # cs) =
     (if c = sep then piece # splitFrom sep [] cs else splitFrom sep (piece @ [c]) cs)"

definition split :: "char \<Rightarrow> string \<Rightarrow> string list" where
  "split sep s = splitFrom sep [] s"

definition pop :: "'a list \<Rightarrow> 'a option \<times> 'a list" where
  "pop xs = (if xs = [] then (None, []) else (Some (last xs), butlast xs))"

definition handleReadResource ::
  "platform \<Rightarrow> 'r db_layer \<Rightarrow> string \<Rightarrow> string \<Rightarrow> js_value outcome" where
  "handleReadResource P E dbId uri = catchRethrow ''Error reading resource: ''
     (andThen (lift (URL_new P uri None)) (\<lambda>resourceUrl.
        let pathComponents = split CHR ''/'' (pathname resourceUrl);
            (schema, pathComponents') = pop pathComponents;
            (tableName, pathComponents'') = pop pathComponents'
        in if schema \<noteq> Some ''schema'' then throw (Error ''Invalid resource URI'')
           else andThen (call_getDescribeTableQuery E dbId tableName) (\<lambda>query.
             andThen (call_dbAll E dbId query) (\<lambda>result.
               ok (JObj [(''contents'', JArr [JObj
                 [(''uri'', JStr uri),
                  (''mimeType'', JStr ''application/json''),
                  (''text'', JStr (JSON_stringify P (JArr (map (\<lambda>column. JObj
                     [(''column_name'', js_get column ''name''),
                      (''data_type'', js_get column ''type'')]) result))))]])])))))"

section \<open>Sample collaborators\<close>

text \<open>
  Concrete platforms and database layers on which the theorems below are exercised: a
  platform whose URL constructor is the model (where the model says nothing it throws,
  which conforms like any other answer) and whose \<open>JSON.stringify\<close> is a stand-in,
  database layers that answer every call, and one whose calls fail.
\<close>

definition model_URL :: "string \<Rightarrow> url option \<Rightarrow> js_error + url" where
  "model_URL input base =
     (case basic_URL_parser input base of
        Parsed u \<Rightarrow> Inr u
      | Failure \<Rightarrow> Inl (Error ''Invalid URL'')
      | Unmodelled \<Rightarrow> Inl (Error ''Invalid URL''))"

definition demo_platform :: platform where
  "demo_platform = \<lparr>URL_new = model_URL, JSON_stringify = (\<lambda>v. ''[]'')\<rparr>"

definition demo_rows :: "row list" where
  "demo_rows = [[(''name'', JStr ''users'')], [(''name'', JStr ''orders'')]]"

definition demo_columns :: "row list" where
  "demo_columns = [[(''name'', JStr ''id''), (''type'', JStr ''INTEGER''), (''notnull'', JNum 1),
                    (''dflt_value'', JNull), (''pk'', JNum 1)]]"

definition sample_db :: "db_metadata \<Rightarrow> js_value db_layer" where
  "sample_db info = \<lparr>
     getDatabaseMetadata = (\<lambda>dbId. Inr info),
     getListTablesQuery = (\<lambda>dbId. Inr ''SELECT name FROM sqlite_master''),
     getDescribeTableQuery = (\<lambda>dbId t. Inr (''PRAGMA table_info('' @ (case t of None \<Rightarrow> ''undefined'' | Some s \<Rightarrow> s) @ '')'')),
     dbAll = (\<lambda>dbId q. if q = ''SELECT name FROM sqlite_master'' then Inr demo_rows else Inr demo_columns),
     dbExec = (\<lambda>dbId q. Inr ()),
     formatSuccessResponse = (\<lambda>v. v)\<rparr>"

definition sqlite_info :: "string \<Rightarrow> db_metadata" where
  "sqlite_info p = \<lparr>db_type = JStr ''sqlite'', db_path = JStr p,
     db_server = JUndefined, db_database = JUndefined\<rparr>"



definition demo_db :: "js_value db_layer" where
  "demo_db = sample_db (sqlite_info ''data.db'')"



section \<open>Plain names and well-formed URL records\<close>




definition hostChar :: "char \<Rightarrow> bool" where
  "hostChar c = (\<not> forbiddenHostCodePoint c \<and> \<not> c0ControlSet c)"

definition pathChar :: "char \<Rightarrow> bool" where
  "pathChar c = (\<not> pathSet c \<and> c \<noteq> CHR ''/'')"

definition schemeChar :: "char \<Rightarrow> bool" where
  "schemeChar c = ((isAsciiAlphanumeric c \<or> c \<in> set [CHR ''+'', CHR ''-'', CHR ''.'']) \<and> asciiLower c = c)"

definition schemeOk :: "string \<Rightarrow> bool" where
  "schemeOk sch = (case sch of [] \<Rightarrow> False
     | c # cs \<Rightarrow> isAsciiAlpha c \<and> asciiLower c = c \<and> list_all schemeChar cs \<and> sch \<notin> set specialSchemes)"

definition segmentOk :: "string \<Rightarrow> bool" where
  "segmentOk s = (list_all pathChar s \<and> \<not> isSingleDot s \<and> \<not> isDoubleDot s)"

definition wfUrl :: "url \<Rightarrow> bool" where
  "wfUrl u = (schemeOk (url_scheme u) \<and> url_username u = [] \<and> url_password u = []
     \<and> (\<exists>h. url_host u = Some h \<and> list_all hostChar h \<and> (url_port u \<noteq> None \<longrightarrow> h \<noteq> []))
     \<and> (\<forall>p. url_port u = Some p \<longrightarrow> p \<le> 65535)
     \<and> (\<exists>ss. url_path u = Segments ss \<and> list_all segmentOk ss))"



section \<open>Strings\<close>

lemma isWhiteSpace_toLowerCase_char: "isWhiteSpace (toLowerCase_char c) = isWhiteSpace c"
  by (auto simp: isWhiteSpace_def toLowerCase_char_def isUpperCase_def Let_def of_char_of)

lemma dropWhile_isWhiteSpace_toLowerCase:
  "dropWhile isWhiteSpace (toLowerCase s) = toLowerCase (dropWhile isWhiteSpace s)"
  by (induction s) (simp_all add: toLowerCase_def isWhiteSpace_toLowerCase_char)

lemma toLowerCase_rev: "toLowerCase (rev s) = rev (toLowerCase s)"
  by (simp add: toLowerCase_def rev_map)

lemma toLowerCase_trim: "toLowerCase (trim s) = trim (toLowerCase s)"
  by (simp add: trim_def dropWhile_isWhiteSpace_toLowerCase toLowerCase_rev [symmetric])

lemma dropWhile_all: "list_all P ws \<Longrightarrow> dropWhile P (ws @ s) = dropWhile P s"
  by (induction ws) simp_all

lemma trim_padding:
  assumes "list_all isWhiteSpace ws" "list_all isWhiteSpace ws'"
  shows "trim (ws @ q @ ws') = trim q"
proof -
  have "rev (dropWhile isWhiteSpace (rev (s @ ws'))) = rev (dropWhile isWhiteSpace (rev s))" for s
    using assms(2) by (simp add: dropWhile_all list_all_iff)
  note tail = this
  show ?thesis
  proof (cases "list_all isWhiteSpace q")
    case True
    have "\<forall>x\<in>set (ws @ q @ ws'). isWhiteSpace x"
      using True assms by (auto simp: list_all_iff)
    then have "dropWhile isWhiteSpace (ws @ q @ ws') = []"
      by (simp only: dropWhile_eq_Nil_conv)
    moreover have "dropWhile isWhiteSpace q = []"
      using True by (simp add: list_all_iff)
    ultimately show ?thesis unfolding trim_def by (simp only:)
  next
    case False
    then have "dropWhile isWhiteSpace (q @ ws') = dropWhile isWhiteSpace q @ ws'"
      by (auto simp: list_all_iff dropWhile_append1)
    then show ?thesis
      using assms(1) tail by (simp add: trim_def dropWhile_all)
  qed
qed

section \<open>Operations and the call log\<close>

lemmas outcome_defs = ok_def throw_def andThen_def catchRethrow_def call_getDatabaseMetadata_def
  call_getListTablesQuery_def call_getDescribeTableQuery_def call_dbAll_def call_dbExec_def










section \<open>Character classes\<close>












section \<open>The parser keeps URL records well-formed\<close>

lemma wfUrl_query_update [simp]: "wfUrl (u\<lparr>url_query := q\<rparr>) = wfUrl u"
  by (simp add: wfUrl_def)

lemma wfUrl_fragment_update [simp]: "wfUrl (u\<lparr>url_fragment := f\<rparr>) = wfUrl u"
  by (simp add: wfUrl_def)


















section \<open>Preprocessing and the scheme\<close>

















section \<open>Resolving a table path against the base\<close>











section \<open>Parsing a serialized URL\<close>
























section \<open>The handlers on parsed URLs\<close>







lemma handleReadResource_parsed:
  assumes "URL_new P uri None = Inr u"
  shows "handleReadResource P E dbId uri = catchRethrow ''Error reading resource: ''
     (if fst (pop (split CHR ''/'' (pathname u))) \<noteq> Some ''schema''
      then throw (Error ''Invalid resource URI'')
      else andThen (call_getDescribeTableQuery E dbId
               (fst (pop (snd (pop (split CHR ''/'' (pathname u))))))) (\<lambda>query.
             andThen (call_dbAll E dbId query) (\<lambda>result.
               ok (JObj [(''contents'', JArr [JObj
                 [(''uri'', JStr uri),
                  (''mimeType'', JStr ''application/json''),
                  (''text'', JStr (JSON_stringify P (JArr (map (\<lambda>column. JObj
                     [(''column_name'', js_get column ''name''),
                      (''data_type'', js_get column ''type'')]) result))))]])]))))"
  using assms
  by (simp add: handleReadResource_def lift_def andThen_def [of "(Inr u, [])"] Let_def case_prod_beta)

lemma handleReadResource_rejects:
  assumes "URL_new P uri None = Inr u" "fst (pop (split CHR ''/'' (pathname u))) \<noteq> Some ''schema''"
  shows "handleReadResource P E dbId uri = (Inl (Error ''Error reading resource: Invalid resource URI''), [])"
  using assms(2) unfolding handleReadResource_parsed [OF assms(1)]
  by (simp add: catchRethrow_def throw_def)
















section \<open>Claims\<close>

text \<open>
  C1: \<open>handleReadResource\<close> checks only the last path segment. A URI whose path is
  the single segment \<open>schema\<close> is not rejected: for \<open>db:schema\<close> the second \<open>pop\<close> yields
  \<open>undefined\<close>, for \<open>db:///schema\<close> the empty string, and either is passed on to the
  describe-table query, where the sibling \<open>describeTable\<close> refuses an empty table name.
  (That a path not ending in \<open>schema\<close> is rejected before any call, and that the segment
  before \<open>schema\<close> is the table name, are the lemmas \<open>handleReadResource_rejects\<close> and
  \<open>handleReadResource_accepts\<close> above.)
\<close>

theorem readResource_accepts_uri_without_table_segment:
  "(\<exists>v. fst (handleReadResource demo_platform demo_db ''main'' ''db:schema'') = Inr v)
   \<and> snd (handleReadResource demo_platform demo_db ''main'' ''db:schema'') =
       [CallGetDescribeTableQuery ''main'' None, CallDbAll ''main'' ''PRAGMA table_info(undefined)'']
   \<and> (\<exists>v. fst (handleReadResource demo_platform demo_db ''main'' ''db:///schema'') = Inr v)
   \<and> snd (handleReadResource demo_platform demo_db ''main'' ''db:///schema'') =
       [CallGetDescribeTableQuery ''main'' (Some []), CallDbAll ''main'' ''PRAGMA table_info()'']
   \<and> describeTable demo_db ''main'' [] =
       (Inl (Error ''Error describing table: Table name is required''), [])"
proof -
  have 1: "handleReadResource demo_platform demo_db ''main'' ''db:schema'' =
     (Inr (JObj [(''contents'', JArr [JObj [(''uri'', JStr ''db:schema''),
        (''mimeType'', JStr ''application/json''), (''text'', JStr ''[]'')]])]),
      [CallGetDescribeTableQuery ''main'' None, CallDbAll ''main'' ''PRAGMA table_info(undefined)''])"
    by code_simp
  have 2: "handleReadResource demo_platform demo_db ''main'' ''db:///schema'' =
     (Inr (JObj [(''contents'', JArr [JObj [(''uri'', JStr ''db:///schema''),
        (''mimeType'', JStr ''application/json''), (''text'', JStr ''[]'')]])]),
      [CallGetDescribeTableQuery ''main'' (Some []), CallDbAll ''main'' ''PRAGMA table_info()''])"
    by code_simp
  have 3: "describeTable demo_db ''main'' [] =
       (Inl (Error ''Error describing table: Table name is required''), [])"
    by code_simp
  show ?thesis unfolding 1 2 3 by simp
qed



text \<open>
  C3: \<open>createTable\<close> and \<open>alterTable\<close> accept a statement exactly when its trimmed,
  lower-cased text starts with \<open>create table\<close> (\<open>alter table\<close>). A rejected statement fails
  with the validation message, wrapped by the catch block like every other error, and
  nothing is executed; an accepted one is passed verbatim to \<open>dbExec\<close>, once. White space
  around the statement and the letter case of the statement do not change acceptance.
\<close>

theorem createTable_alterTable_prefix_guard:
  "(\<not> startsWith (toLowerCase (trim query)) ''create table'' \<longrightarrow>
      createTable E dbId query =
        (Inl (Error ''SQL Error: Only CREATE TABLE statements are allowed''), []))
   \<and> (startsWith (toLowerCase (trim query)) ''create table'' \<longrightarrow>
      createTable E dbId query =
        (case dbExec E dbId query of
           Inl e \<Rightarrow> Inl (Error (''SQL Error: '' @ message e))
         | Inr u \<Rightarrow> Inr (formatSuccessResponse E
             (JObj [(''success'', JBool True), (''message'', JStr ''Table created successfully'')])),
         [CallDbExec dbId query]))
   \<and> (\<not> startsWith (toLowerCase (trim query)) ''alter table'' \<longrightarrow>
      alterTable E dbId query =
        (Inl (Error ''SQL Error: Only ALTER TABLE statements are allowed''), []))
   \<and> (startsWith (toLowerCase (trim query)) ''alter table'' \<longrightarrow>
      alterTable E dbId query =
        (case dbExec E dbId query of
           Inl e \<Rightarrow> Inl (Error (''SQL Error: '' @ message e))
         | Inr u \<Rightarrow> Inr (formatSuccessResponse E
             (JObj [(''success'', JBool True), (''message'', JStr ''Table altered successfully'')])),
         [CallDbExec dbId query]))
   \<and> (list_all isWhiteSpace ws \<and> list_all isWhiteSpace ws' \<longrightarrow>
      startsWith (toLowerCase (trim (ws @ query @ ws'))) p = startsWith (toLowerCase (trim query)) p)
   \<and> (toLowerCase query = toLowerCase query' \<longrightarrow>
      startsWith (toLowerCase (trim query)) p = startsWith (toLowerCase (trim query')) p)"
proof -
  have create_reject: "createTable E dbId query =
        (Inl (Error ''SQL Error: Only CREATE TABLE statements are allowed''), [])"
    if "\<not> startsWith (toLowerCase (trim query)) ''create table''"
    using that by (simp add: createTable_def outcome_defs)
  have create_accept: "createTable E dbId query =
        (case dbExec E dbId query of
           Inl e \<Rightarrow> Inl (Error (''SQL Error: '' @ message e))
         | Inr u \<Rightarrow> Inr (formatSuccessResponse E
             (JObj [(''success'', JBool True), (''message'', JStr ''Table created successfully'')])),
         [CallDbExec dbId query])"
    if "startsWith (toLowerCase (trim query)) ''create table''"
    using that by (simp add: createTable_def outcome_defs split: sum.splits)
  have alter_reject: "alterTable E dbId query =
        (Inl (Error ''SQL Error: Only ALTER TABLE statements are allowed''), [])"
    if "\<not> startsWith (toLowerCase (trim query)) ''alter table''"
    using that by (simp add: alterTable_def outcome_defs)
  have alter_accept: "alterTable E dbId query =
        (case dbExec E dbId query of
           Inl e \<Rightarrow> Inl (Error (''SQL Error: '' @ message e))
         | Inr u \<Rightarrow> Inr (formatSuccessResponse E
             (JObj [(''success'', JBool True), (''message'', JStr ''Table altered successfully'')])),
         [CallDbExec dbId query])"
    if "startsWith (toLowerCase (trim query)) ''alter table''"
    using that by (simp add: alterTable_def outcome_defs split: sum.splits)
  have pad: "startsWith (toLowerCase (trim (ws @ query @ ws'))) p = startsWith (toLowerCase (trim query)) p"
    if "list_all isWhiteSpace ws \<and> list_all isWhiteSpace ws'"
    using that by (simp add: trim_padding)
  have letter_case: "startsWith (toLowerCase (trim query)) p = startsWith (toLowerCase (trim query')) p"
    if "toLowerCase query = toLowerCase query'"
    using that by (simp add: toLowerCase_trim)
  show ?thesis
    apply (intro conjI impI)
         apply (erule create_reject)
        apply (erule create_accept)
       apply (erule alter_reject)
      apply (erule alter_accept)
     apply (erule pad)
    apply (erule letter_case)
    done
qed

theorem createTable_alterTable_prefix_guard_witness:
  "createTable demo_db ''main'' ''DROP TABLE users'' =
     (Inl (Error ''SQL Error: Only CREATE TABLE statements are allowed''), [])
   \<and> createTable demo_db ''main'' ''  Create Table t (id INTEGER) '' =
     (Inr (JObj [(''success'', JBool True), (''message'', JStr ''Table created successfully'')]),
      [CallDbExec ''main'' ''  Create Table t (id INTEGER) ''])
   \<and> alterTable demo_db ''main'' ''create table t (id INTEGER)'' =
     (Inl (Error ''SQL Error: Only ALTER TABLE statements are allowed''), [])
   \<and> alterTable demo_db ''main'' ''ALTER TABLE t ADD c TEXT'' =
     (Inr (JObj [(''success'', JBool True), (''message'', JStr ''Table altered successfully'')]),
      [CallDbExec ''main'' ''ALTER TABLE t ADD c TEXT''])
   \<and> startsWith (toLowerCase (trim ('' '' @ ''create table t'' @ ''  ''))) ''create table''
       = startsWith (toLowerCase (trim ''create table t'')) ''create table''
   \<and> startsWith (toLowerCase (trim ''CREATE TABLE t'')) ''create table''
       = startsWith (toLowerCase (trim ''create table T'')) ''create table''"
proof -
  note g = createTable_alterTable_prefix_guard
  have h1: "\<not> startsWith (toLowerCase (trim ''DROP TABLE users'')) ''create table''"
    by code_simp
  have h2: "startsWith (toLowerCase (trim ''  Create Table t (id INTEGER) '')) ''create table''"
    by code_simp
  have h3: "\<not> startsWith (toLowerCase (trim ''create table t (id INTEGER)'')) ''alter table''"
    by code_simp
  have h4: "startsWith (toLowerCase (trim ''ALTER TABLE t ADD c TEXT'')) ''alter table''"
    by code_simp
  have h5: "list_all isWhiteSpace '' '' \<and> list_all isWhiteSpace ''  ''"
    by code_simp
  have h6: "toLowerCase ''CREATE TABLE t'' = toLowerCase ''create table T''"
    by code_simp
  have w1: "createTable demo_db ''main'' ''DROP TABLE users'' =
     (Inl (Error ''SQL Error: Only CREATE TABLE statements are allowed''), [])"
    by (rule g [where ws = "[]" and ws' = "[]" and p = "[]" and query' = "[]",
          THEN conjunct1, rule_format, OF h1])
  have w2: "createTable demo_db ''main'' ''  Create Table t (id INTEGER) '' =
     (Inr (JObj [(''success'', JBool True), (''message'', JStr ''Table created successfully'')]),
      [CallDbExec ''main'' ''  Create Table t (id INTEGER) ''])"
    using g [where E = demo_db and dbId = "''main''" and ws = "[]" and ws' = "[]" and p = "[]"
          and query' = "[]", THEN conjunct2, THEN conjunct1, rule_format, OF h2]
    by (simp add: demo_db_def sample_db_def sqlite_info_def)
  have w3: "alterTable demo_db ''main'' ''create table t (id INTEGER)'' =
     (Inl (Error ''SQL Error: Only ALTER TABLE statements are allowed''), [])"
    by (rule g [where ws = "[]" and ws' = "[]" and p = "[]" and query' = "[]",
          THEN conjunct2, THEN conjunct2, THEN conjunct1, rule_format, OF h3])
  have w4: "alterTable demo_db ''main'' ''ALTER TABLE t ADD c TEXT'' =
     (Inr (JObj [(''success'', JBool True), (''message'', JStr ''Table altered successfully'')]),
      [CallDbExec ''main'' ''ALTER TABLE t ADD c TEXT''])"
    using g [where E = demo_db and dbId = "''main''" and ws = "[]" and ws' = "[]" and p = "[]"
          and query' = "[]", THEN conjunct2, THEN conjunct2, THEN conjunct2, THEN conjunct1,
          rule_format, OF h4]
    by (simp add: demo_db_def sample_db_def sqlite_info_def)
  have w5: "startsWith (toLowerCase (trim ('' '' @ ''create table t'' @ ''  ''))) ''create table''
       = startsWith (toLowerCase (trim ''create table t'')) ''create table''"
    by (rule g [where E = demo_db and dbId = "''main''" and query' = "[]",
          THEN conjunct2, THEN conjunct2, THEN conjunct2, THEN conjunct2, THEN conjunct1,
          rule_format, OF h5])
  have w6: "startsWith (toLowerCase (trim ''CREATE TABLE t'')) ''create table''
       = startsWith (toLowerCase (trim ''create table T'')) ''create table''"
    by (rule g [where E = demo_db and dbId = "''main''" and ws = "[]" and ws' = "[]",
          THEN conjunct2, THEN conjunct2, THEN conjunct2, THEN conjunct2, THEN conjunct2,
          rule_format, OF h6])
  from w1 w2 w3 w4 w5 w6 show ?thesis by (intro conjI)
qed

text \<open>
  C4: for a non-empty table name, \<open>dropTable\<close> without confirmation returns (it does
  not throw) the envelope with \<open>success: false\<close> and the safety message, and the log of
  calls to the database layer is empty.
\<close>

theorem dropTable_unconfirmed_returns_without_calls:
  "tableName \<noteq> [] \<Longrightarrow>
   dropTable E dbId tableName False =
     (Inr (formatSuccessResponse E
        (JObj [(''success'', JBool False),
               (''message'', JStr ''Safety confirmation required. Set confirm=true to proceed with dropping the table.'')])),
      [])"
  by (simp add: dropTable_def outcome_defs)

theorem dropTable_unconfirmed_returns_without_calls_witness:
  "dropTable demo_db ''main'' ''users'' False =
     (Inr (JObj [(''success'', JBool False),
               (''message'', JStr ''Safety confirmation required. Set confirm=true to proceed with dropping the table.'')]),
      [])"
proof -
  have h: "''users'' \<noteq> []" by simp
  show ?thesis
    using dropTable_unconfirmed_returns_without_calls [OF h, of demo_db "''main''"]
    by (simp add: demo_db_def sample_db_def sqlite_info_def)
qed

text \<open>
  C5: when the table listing does not contain the (non-empty) table name, \<open>dropTable\<close>
  with confirmation and \<open>describeTable\<close> both fail with a message that contains the name,
  after the two calls of the listing and nothing else: no \<open>dbExec\<close>, no describe query.
\<close>

theorem missing_table_fails_before_operation:
  assumes "tableName \<noteq> []"
    and "getListTablesQuery E dbId = Inr query"
    and "dbAll E dbId query = Inr tables"
    and "JStr tableName \<notin> set (map (\<lambda>t. js_get t ''name'') tables)"
  shows "dropTable E dbId tableName True =
           (Inl (Error (''Error dropping table: Table '' @ sq @ tableName @ sq @ '' does not exist'')),
            [CallGetListTablesQuery dbId, CallDbAll dbId query])
       \<and> describeTable E dbId tableName =
           (Inl (Error (''Error describing table: Table '' @ sq @ tableName @ sq @ '' does not exist'')),
            [CallGetListTablesQuery dbId, CallDbAll dbId query])"
  using assms by (simp add: dropTable_def describeTable_def outcome_defs)

theorem missing_table_fails_before_operation_witness:
  "dropTable demo_db ''main'' ''ghosts'' True =
     (Inl (Error (''Error dropping table: Table '' @ sq @ ''ghosts'' @ sq @ '' does not exist'')),
      [CallGetListTablesQuery ''main'', CallDbAll ''main'' ''SELECT name FROM sqlite_master''])
   \<and> describeTable demo_db ''main'' ''ghosts'' =
     (Inl (Error (''Error describing table: Table '' @ sq @ ''ghosts'' @ sq @ '' does not exist'')),
      [CallGetListTablesQuery ''main'', CallDbAll ''main'' ''SELECT name FROM sqlite_master''])"
proof -
  have h1: "''ghosts'' \<noteq> []" by simp
  have h2: "getListTablesQuery demo_db ''main'' = Inr ''SELECT name FROM sqlite_master''"
    by (simp add: demo_db_def sample_db_def sqlite_info_def)
  have h3: "dbAll demo_db ''main'' ''SELECT name FROM sqlite_master'' = Inr demo_rows"
    by (simp add: demo_db_def sample_db_def sqlite_info_def)
  have h4: "JStr ''ghosts'' \<notin> set (map (\<lambda>t. js_get t ''name'') demo_rows)"
    by (simp add: demo_rows_def js_get_def)
  show ?thesis
    by (rule missing_table_fails_before_operation [OF h1 h2 h3 h4])
qed



text \<open>
  C7: for an existing table \<open>describeTable\<close> returns, in the order of the underlying
  rows, one record per row with \<open>name\<close>, \<open>type\<close>, \<open>notnull\<close>, \<open>default_value\<close> and
  \<open>primary_key\<close>, the two flags coerced to booleans by truthiness (0 is false, 1 is true)
  and \<open>default_value\<close> equal to \<open>dflt_value\<close>; the row of the example maps as stated.
\<close>

theorem describeTable_normalizes_columns:
  assumes "tableName \<noteq> []"
    and "getListTablesQuery E dbId = Inr query"
    and "dbAll E dbId query = Inr tables"
    and "JStr tableName \<in> set (map (\<lambda>t. js_get t ''name'') tables)"
    and "getDescribeTableQuery E dbId (Some tableName) = Inr descQuery"
    and "dbAll E dbId descQuery = Inr columns"
  shows "fst (describeTable E dbId tableName) =
           Inr (formatSuccessResponse E (JArr (map (\<lambda>col. JObj
             [(''name'', js_get col ''name''),
              (''type'', js_get col ''type''),
              (''notnull'', JBool (truthy (js_get col ''notnull''))),
              (''default_value'', js_get col ''dflt_value''),
              (''primary_key'', JBool (truthy (js_get col ''pk'')))]) columns)))
       \<and> truthy (JNum 0) = False \<and> truthy (JNum 1) = True
       \<and> describeColumn [(''name'', JStr ''id''), (''type'', JStr ''INTEGER''), (''notnull'', JNum 1),
                          (''dflt_value'', JNull), (''pk'', JNum 1)] =
           JObj [(''name'', JStr ''id''), (''type'', JStr ''INTEGER''), (''notnull'', JBool True),
                 (''default_value'', JNull), (''primary_key'', JBool True)]"
proof -
  have "describeColumn = (\<lambda>col. JObj
             [(''name'', js_get col ''name''),
              (''type'', js_get col ''type''),
              (''notnull'', JBool (truthy (js_get col ''notnull''))),
              (''default_value'', js_get col ''dflt_value''),
              (''primary_key'', JBool (truthy (js_get col ''pk'')))])"
    by (rule ext) (simp add: describeColumn_def)
  then have "fst (describeTable E dbId tableName) =
           Inr (formatSuccessResponse E (JArr (map (\<lambda>col. JObj
             [(''name'', js_get col ''name''),
              (''type'', js_get col ''type''),
              (''notnull'', JBool (truthy (js_get col ''notnull''))),
              (''default_value'', js_get col ''dflt_value''),
              (''primary_key'', JBool (truthy (js_get col ''pk'')))]) columns)))"
    using assms by (simp add: describeTable_def outcome_defs)
  moreover have "describeColumn [(''name'', JStr ''id''), (''type'', JStr ''INTEGER''), (''notnull'', JNum 1),
                          (''dflt_value'', JNull), (''pk'', JNum 1)] =
           JObj [(''name'', JStr ''id''), (''type'', JStr ''INTEGER''), (''notnull'', JBool True),
                 (''default_value'', JNull), (''primary_key'', JBool True)]"
    by (simp add: describeColumn_def js_get_def)
  ultimately show ?thesis by simp
qed

theorem describeTable_normalizes_columns_witness:
  "fst (describeTable demo_db ''main'' ''users'') =
     Inr (JArr [JObj [(''name'', JStr ''id''), (''type'', JStr ''INTEGER''), (''notnull'', JBool True),
                      (''default_value'', JNull), (''primary_key'', JBool True)]])"
proof -
  have h1: "''users'' \<noteq> []" by simp
  have h2: "getListTablesQuery demo_db ''main'' = Inr ''SELECT name FROM sqlite_master''"
    by (simp add: demo_db_def sample_db_def sqlite_info_def)
  have h3: "dbAll demo_db ''main'' ''SELECT name FROM sqlite_master'' = Inr demo_rows"
    by (simp add: demo_db_def sample_db_def sqlite_info_def)
  have h4: "JStr ''users'' \<in> set (map (\<lambda>t. js_get t ''name'') demo_rows)"
    by (simp add: demo_rows_def js_get_def)
  have h5: "getDescribeTableQuery demo_db ''main'' (Some ''users'') = Inr ''PRAGMA table_info(users)''"
    by (simp add: demo_db_def sample_db_def sqlite_info_def)
  have h6: "dbAll demo_db ''main'' ''PRAGMA table_info(users)'' = Inr demo_columns"
    by (simp add: demo_db_def sample_db_def sqlite_info_def)
  have "fst (describeTable demo_db ''main'' ''users'') =
           Inr (formatSuccessResponse demo_db (JArr (map (\<lambda>col. JObj
             [(''name'', js_get col ''name''),
              (''type'', js_get col ''type''),
              (''notnull'', JBool (truthy (js_get col ''notnull''))),
              (''default_value'', js_get col ''dflt_value''),
              (''primary_key'', JBool (truthy (js_get col ''pk'')))]) demo_columns)))"
    by (rule describeTable_normalizes_columns [OF h1 h2 h3 h4 h5 h6, THEN conjunct1])
  then show ?thesis by (simp add: demo_db_def sample_db_def sqlite_info_def demo_columns_def js_get_def)
qed






text \<open>
  C10: with an empty table name \<open>dropTable\<close> throws \<open>Error dropping table: Table name is
  required\<close> whatever \<open>confirm\<close> is, and calls nothing.
\<close>

theorem dropTable_empty_name_precedes_safety_gate:
  "dropTable E dbId [] confirm = (Inl (Error ''Error dropping table: Table name is required''), [])"
  by (simp add: dropTable_def outcome_defs)

theorem dropTable_empty_name_precedes_safety_gate_witness:
  "dropTable demo_db ''main'' [] False = (Inl (Error ''Error dropping table: Table name is required''), [])
   \<and> dropTable demo_db ''main'' [] True = (Inl (Error ''Error dropping table: Table name is required''), [])"
  using dropTable_empty_name_precedes_safety_gate [of demo_db "''main''" False]
    dropTable_empty_name_precedes_safety_gate [of demo_db "''main''" True]
  by simp

end
